theory Spec2Isabelle
  imports Main "HOL-Library.Word"
begin

unbundle bit_operations_syntax

section \<open>JavaScript strings\<close>

text \<open>
  A JavaScript string is a sequence of UTF-16 code units. The literals of
  \<^verbatim>\<open>src/index.ts\<close> are Chinese text; they are written here by their code units.
  \<open>ascii\<close> gives the code units of a literal that is plain ASCII.
\<close>

type_synonym jsstring = "16 word list"

definition ascii :: "string \<Rightarrow> jsstring" where
  "ascii s = map of_char s"

section \<open>Result shapes of the protocol\<close>

text \<open>
  The objects the handlers return, field by field. Two of them carry a \<open>text\<close>
  field, which is declared once and extended.
\<close>

record text_field =
  "text" :: jsstring

record text_content = text_field +
  "type" :: jsstring

record resource_contents = text_field +
  uri :: jsstring
  mimeType :: jsstring

record read_resource_result =
  contents :: "resource_contents list"

record prompt_message =
  role :: jsstring
  content :: text_content

record get_prompt_result =
  messages :: "prompt_message list"

text \<open>
  \<open>CallToolResult\<close>: the content items and the optional \<open>isError\<close> flag of the
  protocol (\<open>None\<close> when the object has no such property).
\<close>

record call_tool_result =
  content :: "text_content list"
  isError :: "bool option"

text \<open>The \<open>URL\<close> object handed to a resource handler; only \<open>href\<close> is read.\<close>

record url =
  href :: jsstring

section \<open>Values, thrown errors and the outside world\<close>

text \<open>
  The values a parsed response body or a request parameter can be. Numbers are
  IEEE doubles in JavaScript; the handlers never compute with them, so their type
  is left open (\<open>'n\<close>) and the one operation applied to them, their JSON text, is a
  parameter of \<open>JSON_stringify\<close>. An \<open>Object\<close> lists its own enumerable properties
  in enumeration order.
\<close>

datatype 'n jsval =
    Undefined
  | Null
  | Boolean bool
  | Number 'n
  | String jsstring
  | Array "'n jsval list"
  | Object "(jsstring \<times> 'n jsval) list"

text \<open>
  What is thrown and caught: an \<open>Error\<close> instance (\<open>AxiosError\<close>, \<open>TypeError\<close>)
  with its \<open>name\<close> and \<open>message\<close>.
\<close>

record js_error =
  name :: jsstring
  message :: jsstring

text \<open>\<open>Error.prototype.toString\<close>, which a template literal applies to an error.\<close>

definition Error_toString :: "js_error \<Rightarrow> jsstring" where
  "Error_toString e =
     (if name e = [] then message e
      else if message e = [] then name e
      else name e @ ascii '': '' @ message e)"

text \<open>The second argument of \<open>axios.get\<close>, and one call of it.\<close>

record 'n AxiosRequestConfig =
  params :: "(jsstring \<times> 'n jsval) list"
  headers :: "(jsstring \<times> jsstring) list"
  timeout :: nat

record 'n get_call =
  call_url :: jsstring
  call_config :: "'n AxiosRequestConfig"

text \<open>The response object of axios; the handler reads only its \<open>data\<close>.\<close>

record 'n AxiosResponse =
  data :: "'n jsval"

text \<open>
  The world a handler runs in: how the network answers a GET (\<open>Inl\<close> when the
  promise of \<open>axios.get\<close> rejects), and the calls of \<open>axios.get\<close> made so far.
  Every handler takes the world and returns its outcome with the new world;
  \<open>Inl\<close> is an exception leaving the handler.
\<close>

record 'n world =
  network :: "'n get_call \<Rightarrow> js_error + 'n AxiosResponse"
  outbound :: "'n get_call list"

type_synonym ('n, 'r) handler_result = "(js_error + 'r) \<times> 'n world"

section \<open>The status resource\<close>

text \<open>
  \<^verbatim>\<open>async (uri) => { return { contents: [{ uri: uri.href, text: "...", mimeType: "text/plain" }] }; }\<close>
\<close>

definition status_text :: jsstring where
  "status_text =
     [0x670D, 0x52A1, 0x5668, 0x8FD0, 0x884C, 0x6B63, 0x5E38, 0xFF0C, 0x65E0, 0x5DF2,
      0x77E5, 0x9519, 0x8BEF, 0x3002, 0x81EA, 0x4E0A, 0x6B21, 0x542F, 0x52A8, 0x4EE5,
      0x6765, 0x5DF2, 0x5904, 0x7406, 0x0020, 0x0031, 0x0030, 0x0030, 0x0020, 0x6B21,
      0x8BF7, 0x6C42, 0x3002]"

definition status_handler :: "url \<Rightarrow> 'n world \<Rightarrow> ('n, read_resource_result) handler_result" where
  "status_handler u w =
     (Inr \<lparr>contents = [\<lparr>text = status_text, uri = href u, mimeType = ascii ''text/plain''\<rparr>]\<rparr>, w)"

section \<open>The echo_message tool\<close>

text \<open>
  \<^verbatim>\<open>async ({ message }) => { return { content: [{ type: "text", text: `<prefix>${message}` }] }; }\<close>
  The prefix is U+4F60 U+8BF4 U+4E86 U+FF1A.
\<close>

definition echo_prefix :: jsstring where
  "echo_prefix = [0x4F60, 0x8BF4, 0x4E86, 0xFF1A]"

definition echo_message_handler :: "jsstring \<Rightarrow> 'n world \<Rightarrow> ('n, call_tool_result) handler_result" where
  "echo_message_handler msg w =
     (Inr \<lparr>content = [\<lparr>text = echo_prefix @ msg, type = ascii ''text''\<rparr>], isError = None\<rparr>, w)"

section \<open>The generate_slogan prompt\<close>

text \<open>
  The handler is a plain (not \<open>async\<close>) function returning one message whose
  text is a template literal around \<open>theme\<close>.
\<close>

definition slogan_before :: jsstring where
  "slogan_before = [0x8BF7, 0x4E3A, 0x201C]"

definition slogan_after :: jsstring where
  "slogan_after =
     [0x201D, 0x4E3B, 0x9898, 0x751F, 0x6210, 0x4E00, 0x53E5, 0x6709, 0x521B, 0x610F,
      0x4E14, 0x5438, 0x5F15, 0x4EBA, 0x7684, 0x53E3, 0x53F7, 0x3002, 0x8981, 0x6C42,
      0x53E3, 0x53F7, 0x7B80, 0x77ED, 0x6709, 0x529B, 0xFF0C, 0x6613, 0x4E8E, 0x4F20,
      0x64AD, 0x3002]"

definition generate_slogan_handler :: "jsstring \<Rightarrow> 'n world \<Rightarrow> ('n, get_prompt_result) handler_result" where
  "generate_slogan_handler theme w =
     (Inr \<lparr>messages =
        [\<lparr>role = ascii ''user'',
          prompt_message.content =
            \<lparr>text = slogan_before @ theme @ slogan_after, type = ascii ''text''\<rparr>\<rparr>]\<rparr>,
      w)"

section \<open>JSON.stringify\<close>

text \<open>
  \<open>JSON.stringify(value)\<close> with one argument (no replacer, no indentation), on the
  values above. \<open>QuoteJSONString\<close> escapes the quote, the backslash and the control
  characters, and writes a surrogate that is not half of a pair as \<open>\uXXXX\<close>.
\<close>

definition hex_digit :: "16 word \<Rightarrow> 16 word" where
  "hex_digit d = (if d < 10 then 0x30 + d else 0x61 + (d - 10))"

definition UnicodeEscape :: "16 word \<Rightarrow> jsstring" where
  "UnicodeEscape c =
     [0x5C, 0x75, hex_digit (drop_bit 12 c AND 0xF), hex_digit (drop_bit 8 c AND 0xF),
      hex_digit (drop_bit 4 c AND 0xF), hex_digit (c AND 0xF)]"

definition is_leading_surrogate :: "16 word \<Rightarrow> bool" where
  "is_leading_surrogate c = (0xD800 \<le> c \<and> c \<le> 0xDBFF)"

definition is_trailing_surrogate :: "16 word \<Rightarrow> bool" where
  "is_trailing_surrogate c = (0xDC00 \<le> c \<and> c \<le> 0xDFFF)"

definition quote_unit :: "16 word \<Rightarrow> jsstring" where
  "quote_unit c =
     (if c = 0x08 then [0x5C, 0x62]
      else if c = 0x09 then [0x5C, 0x74]
      else if c = 0x0A then [0x5C, 0x6E]
      else if c = 0x0C then [0x5C, 0x66]
      else if c = 0x0D then [0x5C, 0x72]
      else if c = 0x22 then [0x5C, 0x22]
      else if c = 0x5C then [0x5C, 0x5C]
      else if c < 0x20 \<or> is_leading_surrogate c \<or> is_trailing_surrogate c then UnicodeEscape c
      else [c])"

fun quote_units :: "jsstring \<Rightarrow> jsstring" where
  "quote_units (c # d # cs) =
     (if is_leading_surrogate c \<and> is_trailing_surrogate d then c # d # quote_units cs
      else quote_unit c @ quote_units (d # cs))"
| "quote_units [c] = quote_unit c"
| "quote_units [] = []"

definition QuoteJSONString :: "jsstring \<Rightarrow> jsstring" where
  "QuoteJSONString s = 0x22 # quote_units s @ [0x22]"

fun join_comma :: "jsstring list \<Rightarrow> jsstring" where
  "join_comma [] = []"
| "join_comma [s] = s"
| "join_comma (s # t # ss) = s @ 0x2C # join_comma (t # ss)"

text \<open>An array element that has no JSON text is written \<open>null\<close>; an object member that has none is left out.\<close>

definition array_element :: "jsstring option \<Rightarrow> jsstring" where
  "array_element r = (case r of None \<Rightarrow> ascii ''null'' | Some s \<Rightarrow> s)"

definition object_member :: "jsstring \<times> jsstring option \<Rightarrow> jsstring list" where
  "object_member m =
     (case snd m of None \<Rightarrow> [] | Some s \<Rightarrow> [QuoteJSONString (fst m) @ 0x3A # s])"

text \<open>
  The result is \<open>None\<close> where \<open>JSON.stringify\<close> returns \<open>undefined\<close>.
  \<open>number_text\<close> is the JSON text of a number (\<open>Number::toString\<close> of a finite
  number, \<open>null\<close> otherwise).
\<close>

primrec JSON_stringify :: "('n \<Rightarrow> jsstring) \<Rightarrow> 'n jsval \<Rightarrow> jsstring option" where
  "JSON_stringify number_text Undefined = None"
| "JSON_stringify number_text Null = Some (ascii ''null'')"
| "JSON_stringify number_text (Boolean b) = Some (if b then ascii ''true'' else ascii ''false'')"
| "JSON_stringify number_text (Number n) = Some (number_text n)"
| "JSON_stringify number_text (String s) = Some (QuoteJSONString s)"
| "JSON_stringify number_text (Array vs) =
     Some (0x5B # join_comma (map array_element (map (JSON_stringify number_text) vs)) @ [0x5D])"
| "JSON_stringify number_text (Object ps) =
     Some (0x7B #
       join_comma (concat (map object_member (map (map_prod id (JSON_stringify number_text)) ps)))
       @ [0x7D])"

text \<open>
  The text of a number that is an integer of magnitude below \<open>10^21\<close> (where
  \<open>Number::toString\<close> writes plain decimal digits), for the examples.
\<close>

fun digits :: "nat \<Rightarrow> jsstring" where
  "digits n = (if n < 10 then [0x30 + of_nat n] else digits (n div 10) @ [0x30 + of_nat (n mod 10)])"

definition integer_text :: "int \<Rightarrow> jsstring" where
  "integer_text i = (if i < 0 then 0x2D # digits (nat (- i)) else digits (nat i))"

section \<open>The send-get-request tool\<close>

text \<open>
  \<open>axios.get(url, config)\<close>: the call is recorded and the network's answer to it
  is the outcome of the awaited promise.
\<close>

definition axios_get ::
  "jsstring \<Rightarrow> 'n AxiosRequestConfig \<Rightarrow> 'n world \<Rightarrow> (js_error + 'n AxiosResponse) \<times> 'n world" where
  "axios_get u cfg w =
     (let c = \<lparr>call_url = u, call_config = cfg\<rparr>
      in (network w c, w\<lparr>outbound := outbound w @ [c]\<rparr>))"

text \<open>
  Reading the property \<open>data\<close> of a value: a \<open>TypeError\<close> on \<open>undefined\<close> and
  \<open>null\<close>, the property's value on an object that has it, and \<open>undefined\<close> on
  every other value (an object without it, an array, a string, a number, a boolean).
\<close>

definition TypeError :: "string \<Rightarrow> js_error" where
  "TypeError of_what =
     \<lparr>name = ascii ''TypeError'',
      message = ascii (''Cannot read properties of '' @ of_what @ '' (reading 'data')'')\<rparr>"

definition get_data :: "'n jsval \<Rightarrow> js_error + 'n jsval" where
  "get_data v =
     (case v of
        Undefined \<Rightarrow> Inl (TypeError ''undefined'')
      | Null \<Rightarrow> Inl (TypeError ''null'')
      | Object ps \<Rightarrow> Inr (case map_of ps (ascii ''data'') of None \<Rightarrow> Undefined | Some x \<Rightarrow> x)
      | _ \<Rightarrow> Inr Undefined)"

text \<open>A template literal around the result of \<open>JSON.stringify\<close>, a string or \<open>undefined\<close>.\<close>

definition ToString :: "jsstring option \<Rightarrow> jsstring" where
  "ToString r = (case r of None \<Rightarrow> ascii ''undefined'' | Some s \<Rightarrow> s)"

text \<open>The arguments of the tool, \<open>RequestParams\<close>; \<open>headers\<close> is optional.\<close>

record 'n RequestParams =
  uri :: jsstring
  params :: "(jsstring \<times> 'n jsval) list"
  headers :: "(jsstring \<times> jsstring) list option"

text \<open>
  The literals: U+8BF7 U+6C42 U+6210 U+529F, a colon and a space before the
  data; U+8BF7 U+6C42 U+9519 U+8BEF, a space and an opening parenthesis before
  the error, and a closing parenthesis after it.
\<close>

definition success_prefix :: jsstring where
  "success_prefix = [0x8BF7, 0x6C42, 0x6210, 0x529F, 0x003A, 0x0020]"

definition error_prefix :: jsstring where
  "error_prefix = [0x8BF7, 0x6C42, 0x9519, 0x8BEF, 0x0020, 0x0028]"

definition error_suffix :: jsstring where
  "error_suffix = [0x0029]"

text \<open>
  The body of the \<open>try\<close> block: \<open>Inl\<close> is an exception on its way to \<open>catch\<close>,
  thrown by the awaited call or by reading \<open>response.data.data\<close>.
\<close>

definition try_block ::
  "('n \<Rightarrow> jsstring) \<Rightarrow> 'n RequestParams \<Rightarrow> 'n world \<Rightarrow> ('n, call_tool_result) handler_result" where
  "try_block number_text args w =
     (case axios_get (uri args)
             \<lparr>AxiosRequestConfig.params = params args,
              AxiosRequestConfig.headers = (case headers args of None \<Rightarrow> [] | Some h \<Rightarrow> h),
              timeout = 10000\<rparr> w of
        (Inl error, w') \<Rightarrow> (Inl error, w')
      | (Inr response, w') \<Rightarrow>
          (case get_data (data response) of
             Inl error \<Rightarrow> (Inl error, w')
           | Inr x \<Rightarrow>
               (Inr \<lparr>content =
                      [\<lparr>text = success_prefix @ ToString (JSON_stringify number_text x),
                        type = ascii ''text''\<rparr>],
                     isError = None\<rparr>, w')))"

definition catch_block :: "js_error \<Rightarrow> call_tool_result" where
  "catch_block error =
     \<lparr>content = [\<lparr>text = error_prefix @ Error_toString error @ error_suffix, type = ascii ''text''\<rparr>],
      isError = None\<rparr>"

definition send_get_request_handler ::
  "('n \<Rightarrow> jsstring) \<Rightarrow> 'n RequestParams \<Rightarrow> 'n world \<Rightarrow> ('n, call_tool_result) handler_result" where
  "send_get_request_handler number_text args w =
     (case try_block number_text args w of
        (Inl error, w') \<Rightarrow> (Inr (catch_block error), w')
      | (Inr result, w') \<Rightarrow> (Inr result, w'))"

text \<open>
  A response body contains a \<open>data\<close> field when it is an object with a property of
  that name.
\<close>

definition has_data_field :: "'n jsval \<Rightarrow> bool" where
  "has_data_field body =
     (case body of Object ps \<Rightarrow> map_of ps (ascii ''data'') \<noteq> None | _ \<Rightarrow> False)"

section \<open>The HTTP client under axios.get\<close>

text \<open>
  axios is not part of the repository. In Node one call of \<open>axios.get\<close> is handed
  to an HTTP client that follows redirects, unless the call sets \<open>maxRedirects\<close>
  to 0; the handler sets only \<open>params\<close>, \<open>headers\<close> and \<open>timeout\<close>. So what the
  network answers to a call is the end of a chain of GETs on the wire.

  A server answers one GET with a redirect to the URL of the next request, or
  with a final outcome: the response, or the error the promise rejects with
  (refused connection, timeout, status outside 2xx). The client is described
  by the number of redirects it follows and the error it gives up with.
\<close>

datatype 'n http_answer = Redirect jsstring | Final "js_error + 'n AxiosResponse"

record http_client =
  maxRedirects :: nat
  too_many_redirects :: js_error

text \<open>The outcome of one call, and the URLs of the GETs sent for it, in order.\<close>

fun follow_redirects ::
  "nat \<Rightarrow> js_error \<Rightarrow> (jsstring \<Rightarrow> 'n http_answer) \<Rightarrow> jsstring
     \<Rightarrow> (js_error + 'n AxiosResponse) \<times> jsstring list" where
  "follow_redirects 0 give_up server u =
     (case server u of
        Final r \<Rightarrow> (r, [u])
      | Redirect next_url \<Rightarrow> (Inl give_up, [u]))"
| "follow_redirects (Suc n) give_up server u =
     (case server u of
        Final r \<Rightarrow> (r, [u])
      | Redirect next_url \<Rightarrow>
          (fst (follow_redirects n give_up server next_url),
           u # snd (follow_redirects n give_up server next_url)))"

definition request_on_wire ::
  "http_client \<Rightarrow> (jsstring \<Rightarrow> 'n http_answer) \<Rightarrow> 'n get_call
     \<Rightarrow> (js_error + 'n AxiosResponse) \<times> jsstring list" where
  "request_on_wire client server c =
     follow_redirects (maxRedirects client) (too_many_redirects client) server (call_url c)"

text \<open>
  The world in front of a server, with nothing sent yet, and the GETs on the
  wire that a list of calls of \<open>axios.get\<close> stands for.
\<close>

definition served :: "http_client \<Rightarrow> (jsstring \<Rightarrow> 'n http_answer) \<Rightarrow> 'n world" where
  "served client server =
     \<lparr>network = (\<lambda>c. fst (request_on_wire client server c)), outbound = []\<rparr>"

definition wire_requests ::
  "http_client \<Rightarrow> (jsstring \<Rightarrow> 'n http_answer) \<Rightarrow> 'n get_call list \<Rightarrow> jsstring list" where
  "wire_requests client server calls =
     concat (map (\<lambda>c. snd (request_on_wire client server c)) calls)"

section \<open>Startup\<close>

text \<open>
  The process as the module sees it: what \<open>console.error\<close> was called with, and
  the code \<open>process.exit\<close> was called with, if it was.
\<close>

datatype log_arg = Str jsstring | Err js_error

record process =
  stderr :: "log_arg list list"
  exited :: "nat option"

definition console_error :: "log_arg list \<Rightarrow> process \<Rightarrow> process" where
  "console_error line p = p\<lparr>stderr := stderr p @ [line]\<rparr>"

definition process_exit :: "nat \<Rightarrow> process \<Rightarrow> process" where
  "process_exit code p = p\<lparr>exited := Some code\<rparr>"

definition started_text :: jsstring where
  "started_text =
     [0x004D, 0x0043, 0x0050, 0x6F14, 0x793A, 0x670D, 0x52A1, 0x5668, 0x5DF2, 0x6210,
      0x529F, 0x542F, 0x52A8, 0xFF0C, 0x5E76, 0x76D1, 0x542C, 0x0053, 0x0074, 0x0064,
      0x0069, 0x006F, 0x4F20, 0x8F93, 0x3002]"

definition fatal_text :: jsstring where
  "fatal_text =
     [0x670D, 0x52A1, 0x5668, 0x542F, 0x52A8, 0x65F6, 0x53D1, 0x751F, 0x81F4, 0x547D,
      0x9519, 0x8BEF, 0x003A]"

text \<open>
  \<open>main\<close>: \<open>connect\<close> is the outcome of creating the transport and awaiting
  \<open>server.connect(transport)\<close>, \<open>Inl\<close> when that throws or rejects.
\<close>

definition main :: "js_error + unit \<Rightarrow> process \<Rightarrow> (js_error + unit) \<times> process" where
  "main connect p =
     (case connect of
        Inl error \<Rightarrow> (Inl error, p)
      | Inr _ \<Rightarrow> (Inr (), console_error [Str started_text] p))"

text \<open>\<open>main().catch((error) => { console.error(..., error); process.exit(1); })\<close>\<close>

definition startup :: "js_error + unit \<Rightarrow> process \<Rightarrow> process" where
  "startup connect p =
     (case main connect p of
        (Inl error, p') \<Rightarrow> process_exit 1 (console_error [Str fatal_text, Err error] p')
      | (Inr _, p') \<Rightarrow> p')"

text \<open>
  The exit code of the process when it ends: the code given to \<open>process.exit\<close>,
  and 0 (the program never sets \<open>process.exitCode\<close>) when the process ends
  because nothing is left to run.
\<close>

definition exit_code :: "process \<Rightarrow> nat" where
  "exit_code p = (case exited p of Some code \<Rightarrow> code | None \<Rightarrow> 0)"

definition fresh_process :: process where
  "fresh_process = \<lparr>stderr = [], exited = None\<rparr>"

text \<open>
  The module from top to bottom: each registration but the one of
  send-get-request is followed by a log line, then \<open>main\<close> is started.
\<close>

definition registered_resource_text :: jsstring where
  "registered_resource_text =
     [0x5DF2, 0x6CE8, 0x518C, 0x8D44, 0x6E90, 0x003A, 0x0020] @ ascii ''resource://status/server''"

definition registered_tool_text :: jsstring where
  "registered_tool_text =
     [0x5DF2, 0x6CE8, 0x518C, 0x5DE5, 0x5177, 0x003A, 0x0020] @ ascii ''echo_message''"

definition registered_prompt_text :: jsstring where
  "registered_prompt_text =
     [0x5DF2, 0x6CE8, 0x518C, 0x63D0, 0x793A, 0x003A, 0x0020] @ ascii ''generate_slogan''"

definition module_body :: "js_error + unit \<Rightarrow> process" where
  "module_body connect =
     startup connect
       (console_error [Str registered_prompt_text]
         (console_error [Str registered_tool_text]
           (console_error [Str registered_resource_text] fresh_process)))"

section \<open>Example inputs\<close>

text \<open>
  A world whose network gives one fixed answer and where nothing was sent yet,
  the arguments of the scenario \<open>{uri: "http://example.invalid/", params: {}}\<close>,
  and the error of a request that timed out.
\<close>

definition answering :: "js_error + int AxiosResponse \<Rightarrow> int world" where
  "answering r = \<lparr>network = (\<lambda>c. r), outbound = []\<rparr>"

definition example_args :: "int RequestParams" where
  "example_args = \<lparr>uri = ascii ''http://example.invalid/'', params = [], headers = None\<rparr>"

definition example_call :: "int get_call" where
  "example_call =
     \<lparr>call_url = ascii ''http://example.invalid/'',
      call_config = \<lparr>AxiosRequestConfig.params = [], AxiosRequestConfig.headers = [],
        timeout = 10000\<rparr>\<rparr>"


text \<open>
  A client that follows up to 21 redirects, and a server that answers a GET of
  \<open>http://example.invalid/\<close> with a redirect to \<open>http://example.invalid/moved\<close>
  and every other GET with the body \<open>{"data": {"id": 1}}\<close>.
\<close>

definition example_client :: http_client where
  "example_client =
     \<lparr>maxRedirects = 21,
      too_many_redirects =
        \<lparr>name = ascii ''Error'', message = ascii ''Maximum number of redirects exceeded''\<rparr>\<rparr>"

definition redirecting_server :: "jsstring \<Rightarrow> int http_answer" where
  "redirecting_server u =
     (if u = ascii ''http://example.invalid/'' then Redirect (ascii ''http://example.invalid/moved'')
      else Final (Inr \<lparr>data = Object [(ascii ''data'', Object [(ascii ''id'', Number 1)])]\<rparr>))"

section \<open>Facts about JSON.stringify\<close>

lemma join_comma_length: "m \<in> set ms \<Longrightarrow> length m \<le> length (join_comma ms)"
  by (induction ms rule: join_comma.induct) auto

lemma member_in_object:
  assumes "(k, x) \<in> set ps" and "JSON_stringify number_text x = Some s"
  shows "QuoteJSONString k @ 0x3A # s
           \<in> set (concat (map object_member (map (map_prod id (JSON_stringify number_text)) ps)))"
  using assms by (force simp: object_member_def)

text \<open>Only \<open>undefined\<close> has no JSON text.\<close>

lemma JSON_stringify_None: "JSON_stringify number_text v = None \<longleftrightarrow> v = Undefined"
  by (cases v) auto

text \<open>
  The text of an object is longer than the text of any of its properties, so
  the two are never the same.
\<close>

lemma JSON_stringify_property_differs:
  assumes "map_of ps k = Some x"
  shows "JSON_stringify number_text (Object ps) \<noteq> JSON_stringify number_text x"
proof (cases "JSON_stringify number_text x")
  case None
  then show ?thesis by simp
next
  case (Some s)
  from assms have "(k, x) \<in> set ps"
    by (rule map_of_SomeD)
  from member_in_object [OF this Some] join_comma_length
  have "length (QuoteJSONString k @ 0x3A # s)
          \<le> length (join_comma
                (concat (map object_member (map (map_prod id (JSON_stringify number_text)) ps))))"
    by blast
  then show ?thesis using Some by auto
qed

section \<open>The handlers that only build a value\<close>

text \<open>
  C2. For every message the echo_message handler completes normally, leaves the
  world as it was, and returns exactly one content item, of type text, whose
  text is the prefix U+4F60 U+8BF4 U+4E86 U+FF1A followed by the message
  unchanged. For the message hello the text is the prefix followed by the five
  code units of hello.
\<close>

theorem echo_message_verbatim:
  "echo_message_handler msg w =
     (Inr \<lparr>content = [\<lparr>text = [0x4F60, 0x8BF4, 0x4E86, 0xFF1A] @ msg, type = ascii ''text''\<rparr>],
           isError = None\<rparr>, w)
   \<and> fst (echo_message_handler (ascii ''hello'') w) =
     Inr \<lparr>content =
            [\<lparr>text = [0x4F60, 0x8BF4, 0x4E86, 0xFF1A, 0x68, 0x65, 0x6C, 0x6C, 0x6F],
              type = ascii ''text''\<rparr>],
          isError = None\<rparr>"
  by (simp add: echo_message_handler_def echo_prefix_def ascii_def)

text \<open>
  C4. For every request URI and in every world (whatever was requested before),
  the status handler completes normally, leaves the world as it was, and returns
  one content item whose text is the fixed status string and whose MIME type is
  text/plain.
\<close>

theorem status_fixed:
  "\<exists>r. status_handler u w = (Inr r, w)
      \<and> map text (contents r) = [status_text]
      \<and> map mimeType (contents r) = [ascii ''text/plain'']"
  by (simp add: status_handler_def)

text \<open>
  C10. The \<open>uri\<close> field of the content item the status handler returns is the
  \<open>href\<close> of the URI it was requested with.
\<close>

theorem status_uri_echoed:
  "\<exists>r. fst (status_handler u w) = Inr r \<and> map resource_contents.uri (contents r) = [href u]"
  by (simp add: status_handler_def)

text \<open>
  C5. For every theme the generate_slogan handler returns exactly one message,
  of role user, whose text is the fixed template with the theme between its two
  parts, unchanged; it completes normally and leaves the world as it was.
\<close>

theorem generate_slogan_template:
  "\<exists>r. generate_slogan_handler theme w = (Inr r, w)
      \<and> map role (messages r) = [ascii ''user'']
      \<and> map (text \<circ> prompt_message.content) (messages r) = [slogan_before @ theme @ slogan_after]"
  by (simp add: generate_slogan_handler_def)

section \<open>The send-get-request handler\<close>

text \<open>
  Whatever the network answers and whatever the body is, the handler completes
  normally with one content item and no \<open>isError\<close> flag.
\<close>

lemma send_get_request_never_throws:
  "\<exists>r. fst (send_get_request_handler number_text args w) = Inr r
      \<and> length (content r) = 1 \<and> isError r = None"
  by (simp add: send_get_request_handler_def try_block_def axios_get_def catch_block_def
        split: sum.splits prod.splits)

text \<open>A body that is \<open>null\<close> or \<open>undefined\<close> ends in the \<open>catch\<close> block.\<close>

lemma send_get_request_null_body:
  assumes "network w \<lparr>call_url = uri args,
             call_config = \<lparr>AxiosRequestConfig.params = params args,
               AxiosRequestConfig.headers = (case headers args of None \<Rightarrow> [] | Some h \<Rightarrow> h),
               timeout = 10000\<rparr>\<rparr> = Inr response"
  shows "data response = Null \<Longrightarrow>
           fst (send_get_request_handler number_text args w) = Inr (catch_block (TypeError ''null''))"
    and "data response = Undefined \<Longrightarrow>
           fst (send_get_request_handler number_text args w) = Inr (catch_block (TypeError ''undefined''))"
  using assms
  by (simp_all add: send_get_request_handler_def try_block_def axios_get_def get_data_def)



text \<open>
  C3. If the GET succeeds and the response body is an object with a property
  \<open>data\<close> of value \<open>x\<close>, the handler returns one content item of type text whose
  text is the success prefix followed by the result of \<open>JSON.stringify\<close> on \<open>x\<close>;
  that is not the result of \<open>JSON.stringify\<close> on the whole body.
\<close>

theorem send_get_request_serializes_data:
  assumes "network w \<lparr>call_url = uri args,
             call_config = \<lparr>AxiosRequestConfig.params = params args,
               AxiosRequestConfig.headers = (case headers args of None \<Rightarrow> [] | Some h \<Rightarrow> h),
               timeout = 10000\<rparr>\<rparr> = Inr response"
    and "data response = Object ps"
    and "map_of ps (ascii ''data'') = Some x"
  shows "fst (send_get_request_handler number_text args w) =
           Inr \<lparr>content = [\<lparr>text = success_prefix @ ToString (JSON_stringify number_text x),
                            type = ascii ''text''\<rparr>],
                isError = None\<rparr>
         \<and> JSON_stringify number_text x \<noteq> JSON_stringify number_text (data response)"
  using assms JSON_stringify_property_differs [of ps "ascii ''data''" x number_text]
  by (simp add: send_get_request_handler_def try_block_def axios_get_def get_data_def)

text \<open>The body \<open>{"data": {"id": 1}}\<close> gives the success prefix followed by \<open>{"id":1}\<close>.\<close>

theorem send_get_request_serializes_data_witness:
  "network (answering (Inr \<lparr>data = Object [(ascii ''data'', Object [(ascii ''id'', Number 1)])]\<rparr>))
     example_call
     = Inr \<lparr>data = Object [(ascii ''data'', Object [(ascii ''id'', Number 1)])]\<rparr>
   \<and> map_of [(ascii ''data'', Object [(ascii ''id'', Number (1::int))])] (ascii ''data'')
     = Some (Object [(ascii ''id'', Number 1)])
   \<and> fst (send_get_request_handler integer_text example_args
        (answering (Inr \<lparr>data = Object [(ascii ''data'', Object [(ascii ''id'', Number 1)])]\<rparr>))) =
       Inr \<lparr>content =
              [\<lparr>text = [0x8BF7, 0x6C42, 0x6210, 0x529F, 0x003A, 0x0020] @ ascii ''{\"id\":1}'',
                type = ascii ''text''\<rparr>],
            isError = None\<rparr>"
proof -
  let ?body = "Object [(ascii ''data'', Object [(ascii ''id'', Number (1::int))])]"
  have sent: "\<lparr>call_url = uri example_args,
      call_config = \<lparr>AxiosRequestConfig.params = params example_args,
        AxiosRequestConfig.headers = (case headers example_args of None \<Rightarrow> [] | Some h \<Rightarrow> h),
        timeout = 10000\<rparr>\<rparr> = example_call"
    by (simp add: example_args_def example_call_def)
  have answer: "network (answering (Inr \<lparr>data = ?body\<rparr>)) example_call = Inr \<lparr>data = ?body\<rparr>"
    by (simp add: answering_def)
  have found: "map_of [(ascii ''data'', Object [(ascii ''id'', Number (1::int))])] (ascii ''data'')
      = Some (Object [(ascii ''id'', Number 1)])"
    by simp
  from send_get_request_serializes_data
    [of "answering (Inr \<lparr>data = ?body\<rparr>)" example_args "\<lparr>data = ?body\<rparr>"
        "[(ascii ''data'', Object [(ascii ''id'', Number 1)])]" "Object [(ascii ''id'', Number 1)]"
        integer_text]
  have "fst (send_get_request_handler integer_text example_args (answering (Inr \<lparr>data = ?body\<rparr>))) =
      Inr \<lparr>content =
             [\<lparr>text = success_prefix
                 @ ToString (JSON_stringify integer_text (Object [(ascii ''id'', Number 1)])),
               type = ascii ''text''\<rparr>],
           isError = None\<rparr>"
    unfolding sent using answer found by simp
  then show ?thesis
    using answer found
    by (simp add: success_prefix_def ToString_def object_member_def QuoteJSONString_def
          quote_unit_def is_leading_surrogate_def is_trailing_surrogate_def integer_text_def
          ascii_def)
qed

text \<open>
  C7, as amended. If the GET succeeds and the response body is neither \<open>null\<close>
  nor \<open>undefined\<close> and has no \<open>data\<close> field (an object without that property, an
  array, a string, a number or a boolean), the handler returns the success
  prefix followed by the word undefined.
\<close>

theorem send_get_request_missing_data:
  assumes "network w \<lparr>call_url = uri args,
             call_config = \<lparr>AxiosRequestConfig.params = params args,
               AxiosRequestConfig.headers = (case headers args of None \<Rightarrow> [] | Some h \<Rightarrow> h),
               timeout = 10000\<rparr>\<rparr> = Inr response"
    and "\<not> has_data_field (data response)"
    and "data response \<noteq> Null"
    and "data response \<noteq> Undefined"
  shows "fst (send_get_request_handler number_text args w) =
           Inr \<lparr>content = [\<lparr>text = success_prefix @ ascii ''undefined'', type = ascii ''text''\<rparr>],
                isError = None\<rparr>"
  using assms
  by (cases "data response")
     (simp_all add: send_get_request_handler_def try_block_def axios_get_def get_data_def
        has_data_field_def ToString_def)

text \<open>The body \<open>{"id": 1}\<close>, which does not wrap its payload in \<open>data\<close>.\<close>

theorem send_get_request_missing_data_witness:
  "network (answering (Inr \<lparr>data = Object [(ascii ''id'', Number 1)]\<rparr>)) example_call
     = Inr \<lparr>data = Object [(ascii ''id'', Number 1)]\<rparr>
   \<and> \<not> has_data_field (Object [(ascii ''id'', Number (1::int))])
   \<and> fst (send_get_request_handler integer_text example_args
        (answering (Inr \<lparr>data = Object [(ascii ''id'', Number 1)]\<rparr>))) =
       Inr \<lparr>content =
              [\<lparr>text = [0x8BF7, 0x6C42, 0x6210, 0x529F, 0x003A, 0x0020] @ ascii ''undefined'',
                type = ascii ''text''\<rparr>],
            isError = None\<rparr>"
proof -
  let ?body = "Object [(ascii ''id'', Number (1::int))]"
  have sent: "\<lparr>call_url = uri example_args,
      call_config = \<lparr>AxiosRequestConfig.params = params example_args,
        AxiosRequestConfig.headers = (case headers example_args of None \<Rightarrow> [] | Some h \<Rightarrow> h),
        timeout = 10000\<rparr>\<rparr> = example_call"
    by (simp add: example_args_def example_call_def)
  have answer: "network (answering (Inr \<lparr>data = ?body\<rparr>)) example_call = Inr \<lparr>data = ?body\<rparr>"
    by (simp add: answering_def)
  have missing: "\<not> has_data_field ?body"
    by (simp add: has_data_field_def ascii_def)
  from send_get_request_missing_data
    [of "answering (Inr \<lparr>data = ?body\<rparr>)" example_args "\<lparr>data = ?body\<rparr>" integer_text]
  have "fst (send_get_request_handler integer_text example_args (answering (Inr \<lparr>data = ?body\<rparr>))) =
      Inr \<lparr>content = [\<lparr>text = success_prefix @ ascii ''undefined'', type = ascii ''text''\<rparr>],
           isError = None\<rparr>"
    unfolding sent using answer missing by simp
  then show ?thesis
    using answer missing by (simp add: success_prefix_def)
qed

text \<open>
  C7 as it is written fails on the body \<open>null\<close>: the GET succeeds, the body has
  no \<open>data\<close> field, and the handler returns the error text around
  \<open>TypeError: Cannot read properties of null (reading 'data')\<close>, not the success
  prefix followed by undefined.
\<close>

theorem send_get_request_null_body_counterexample:
  "network (answering (Inr \<lparr>data = Null\<rparr>)) example_call = Inr \<lparr>data = Null\<rparr>
   \<and> \<not> has_data_field (Null :: int jsval)
   \<and> fst (send_get_request_handler integer_text example_args (answering (Inr \<lparr>data = Null\<rparr>))) \<noteq>
       Inr \<lparr>content =
              [\<lparr>text = [0x8BF7, 0x6C42, 0x6210, 0x529F, 0x003A, 0x0020] @ ascii ''undefined'',
                type = ascii ''text''\<rparr>],
            isError = None\<rparr>
   \<and> fst (send_get_request_handler integer_text example_args (answering (Inr \<lparr>data = Null\<rparr>))) =
       Inr \<lparr>content =
              [\<lparr>text = [0x8BF7, 0x6C42, 0x9519, 0x8BEF, 0x0020, 0x0028]
                        @ ascii ''TypeError: Cannot read properties of null (reading 'data')''
                        @ [0x0029],
                type = ascii ''text''\<rparr>],
            isError = None\<rparr>"
  by (simp add: send_get_request_handler_def try_block_def axios_get_def get_data_def
        catch_block_def TypeError_def Error_toString_def error_prefix_def error_suffix_def
        has_data_field_def answering_def example_args_def example_call_def ascii_def)

text \<open>
  A call whose first GET is answered without a redirect is that one GET on the
  wire.
\<close>

lemma wire_requests_no_redirect:
  assumes "server (call_url c) = Final r"
  shows "wire_requests client server [c] = [call_url c]"
    and "fst (request_on_wire client server c) = r"
  using assms
  by (cases "maxRedirects client"; simp add: wire_requests_def request_on_wire_def)+

text \<open>
  C6, as amended. Every invocation of the handler, whether the GET succeeds or
  throws, adds exactly one call of \<open>axios.get\<close> to the calls made before it: a
  GET to the given \<open>uri\<close> with the given \<open>params\<close>, the given \<open>headers\<close> (none
  when they are omitted) and a timeout of 10000 ms. The handler never calls
  \<open>axios.get\<close> a second time; how many GETs the one call puts on the wire is
  the HTTP client's matter.
\<close>

theorem send_get_request_one_call:
  "outbound (snd (send_get_request_handler number_text args w)) =
     outbound w @
       [\<lparr>call_url = uri args,
         call_config = \<lparr>AxiosRequestConfig.params = params args,
           AxiosRequestConfig.headers = (case headers args of None \<Rightarrow> [] | Some h \<Rightarrow> h),
           timeout = 10000\<rparr>\<rparr>]"
  by (simp add: send_get_request_handler_def try_block_def axios_get_def Let_def
        split: sum.splits prod.splits)

text \<open>
  C6 as it is written fails when the server redirects: the handler makes its
  one call of \<open>axios.get\<close>, the client follows the redirect, and two GETs go
  out in the one invocation, the second to a URL that is not the supplied
  \<open>uri\<close>. The handler reports success with the data of the second answer.
\<close>

theorem send_get_request_redirect_counterexample:
  "outbound (snd (send_get_request_handler integer_text example_args
       (served example_client redirecting_server))) = [example_call]
   \<and> wire_requests example_client redirecting_server
       (outbound (snd (send_get_request_handler integer_text example_args
          (served example_client redirecting_server)))) =
       [ascii ''http://example.invalid/'', ascii ''http://example.invalid/moved'']
   \<and> length (wire_requests example_client redirecting_server
       (outbound (snd (send_get_request_handler integer_text example_args
          (served example_client redirecting_server))))) = 2
   \<and> fst (send_get_request_handler integer_text example_args
       (served example_client redirecting_server)) =
       Inr \<lparr>content =
              [\<lparr>text = [0x8BF7, 0x6C42, 0x6210, 0x529F, 0x003A, 0x0020] @ ascii ''{\"id\":1}'',
                type = ascii ''text''\<rparr>],
            isError = None\<rparr>"
proof -
  have wire: "request_on_wire example_client redirecting_server example_call =
      (Inr \<lparr>data = Object [(ascii ''data'', Object [(ascii ''id'', Number 1)])]\<rparr>,
       [ascii ''http://example.invalid/'', ascii ''http://example.invalid/moved''])"
    unfolding request_on_wire_def example_client_def example_call_def
    by (simp add: eval_nat_numeral redirecting_server_def ascii_def)
  have calls: "outbound (snd (send_get_request_handler integer_text example_args
       (served example_client redirecting_server))) = [example_call]"
    by (simp add: send_get_request_handler_def try_block_def axios_get_def Let_def served_def
          example_args_def example_call_def split: sum.splits prod.splits)
  have result: "fst (send_get_request_handler integer_text example_args
       (served example_client redirecting_server)) =
       Inr \<lparr>content =
              [\<lparr>text = [0x8BF7, 0x6C42, 0x6210, 0x529F, 0x003A, 0x0020] @ ascii ''{\"id\":1}'',
                type = ascii ''text''\<rparr>],
            isError = None\<rparr>"
  proof -
    have sent: "\<lparr>call_url = uri example_args,
        call_config = \<lparr>AxiosRequestConfig.params = params example_args,
          AxiosRequestConfig.headers = (case headers example_args of None \<Rightarrow> [] | Some h \<Rightarrow> h),
          timeout = 10000\<rparr>\<rparr> = example_call"
      by (simp add: example_args_def example_call_def)
    show ?thesis
      unfolding send_get_request_handler_def try_block_def axios_get_def Let_def served_def sent
      by (simp add: wire get_data_def success_prefix_def ToString_def object_member_def
            QuoteJSONString_def quote_unit_def is_leading_surrogate_def
            is_trailing_surrogate_def integer_text_def ascii_def)
  qed
  show ?thesis
    unfolding calls using result by (simp add: wire_requests_def wire)
qed

text \<open>
  C9. With \<open>headers\<close> omitted the call of \<open>axios.get\<close> carries the empty header
  mapping, and the handler does the same (result and calls made) as with
  \<open>headers\<close> given as the empty object.
\<close>

theorem omitted_headers_empty:
  "send_get_request_handler number_text (args\<lparr>headers := None\<rparr>) w =
     send_get_request_handler number_text (args\<lparr>headers := Some []\<rparr>) w
   \<and> last (outbound (snd (send_get_request_handler number_text (args\<lparr>headers := None\<rparr>) w))) =
       \<lparr>call_url = uri args,
        call_config = \<lparr>AxiosRequestConfig.params = params args,
          AxiosRequestConfig.headers = [], timeout = 10000\<rparr>\<rparr>"
  by (simp add: send_get_request_handler_def try_block_def axios_get_def Let_def
        split: sum.splits prod.splits)

section \<open>Exit codes\<close>

text \<open>
  C8. If connecting the transport fails, \<open>main\<close> rejects, \<open>process.exit(1)\<close> is
  called and the exit code is 1. If it succeeds the program never calls
  \<open>process.exit\<close>, and the exit code when the process ends is 0.
\<close>

theorem exit_codes:
  "exited (module_body (Inl error)) = Some 1
   \<and> exit_code (module_body (Inl error)) = 1
   \<and> exited (module_body (Inr ())) = None
   \<and> exit_code (module_body (Inr ())) = 0"
  by (simp add: module_body_def startup_def main_def process_exit_def console_error_def
        fresh_process_def exit_code_def)

end
